theory Spec2Isabelle
  imports Complex_Main "HOL-Library.Char_ord" "HOL-Library.List_Lexorder"
    "HOL-Library.Product_Lexorder" "HOL-Library.Multiset"
begin

section \<open>Values\<close>

text \<open>
  The programs are pandas scripts. A data frame is modelled as the list of its rows, a row
  as a record of its columns. A cell that pandas holds as NaN/None (a missing value) is
  \<open>None\<close> of an option type. Payment amounts are 64-bit floats in the source; the model
  computes with them as real numbers, so rounding is not modelled: every statement below
  about sums, quotients and quantiles is about the exact values. Strings are lists of
  characters with code points below 256.

  The one place where the special float values matter is the quotient of line 135 of
  \<^verbatim>\<open>preprocessing.py\<close>, whose divisor can be zero or missing; its result type
  \<open>fval\<close> has them as constructors.
\<close>

datatype fval = Num real | PosInf | NegInf | NaN

datatype error = HTTPError | FileNotFoundError | IndexError | ValueError

section \<open>preprocessing.py, step 3: cleaning the payments\<close>

text \<open>
  A raw payments row, with the columns the script uses (\<^verbatim>\<open>Covered_Recipient_Profile_ID\<close>
  and \<^verbatim>\<open>Date_of_Payment\<close> are loaded too, and never read).
\<close>

record raw_payment =
  Covered_Recipient_Specialty_1 :: "string option"
  Total_Amount_of_Payment_USDollars :: "real option"
  Nature_of_Payment_or_Transfer_of_Value :: "string option"
  Recipient_State :: "string option"

text \<open>
  The rows of the later frames share columns; the records extend each other so that
  \<open>state\<close> and \<open>payment_amount\<close> are one selector for all of them.
  \<open>state_total\<close> is a row of \<^verbatim>\<open>state_summary\<close> (line 133), \<open>detail\<close> a row of
  \<^verbatim>\<open>detail_data\<close> (line 141), \<open>payment\<close> a row of the cleaned \<^verbatim>\<open>payments_df\<close>.
\<close>

record state_total =
  state :: string
  payment_amount :: real

record detail = state_total +
  specialty_clean :: string
  payment_type_clean :: string

record payment = detail +
  specialty :: "string option"
  payment_type :: "string option"

text \<open>Python's \<^verbatim>\<open>s.split(d)\<close> for a one-character separator: never an empty list.\<close>

fun split_on :: "char \<Rightarrow> string \<Rightarrow> string list" where
  "split_on d [] = [[]]"
| "split_on d (c # cs) =
     (let r = split_on d cs in if c = d then [] # r else (c # hd r) # tl r)"

text \<open>
  Python's \<^verbatim>\<open>str.strip()\<close>: the whitespace characters below code point 256 are
  9 to 13, 28 to 32, 133 and 160.
\<close>

definition is_space :: "char \<Rightarrow> bool" where
  "is_space c = (let n = (of_char c :: nat) in
     (9 \<le> n \<and> n \<le> 13) \<or> (28 \<le> n \<and> n \<le> 32) \<or> n = 133 \<or> n = 160)"

definition strip :: "string \<Rightarrow> string" where
  "strip s = rev (dropWhile is_space (rev (dropWhile is_space s)))"

text \<open>
  Lines 59 to 65: \<^verbatim>\<open>.str.split("|").str[-1].str.strip().fillna("Unknown")\<close>. A missing
  specialty stays missing through the three string steps and is filled at the end.
\<close>

definition clean_specialty :: "string option \<Rightarrow> string" where
  "clean_specialty sp =
     (case map_option (\<lambda>s. strip (last (split_on CHR ''|'' s))) sp of
        None \<Rightarrow> ''Unknown''
      | Some s \<Rightarrow> s)"

text \<open>Lines 68 to 80, the dictionary \<^verbatim>\<open>nature_map\<close>.\<close>

definition nature_map :: "string \<rightharpoonup> string" where
  "nature_map = map_of
    [(''Compensation for services other than consulting, including serving as faculty or as a speaker at a venue other than a continuing education program'',
        ''Non-consulting professional services''),
     (''Consulting Fee'', ''Consulting''),
     (''Food and Beverage'', ''Food & Beverage''),
     (''Travel and Lodging'', ''Travel & Lodging''),
     (''Royalty or License'', ''Royalty / License''),
     (''Honoraria'', ''Honoraria''),
     (''Education'', ''Education''),
     (''Grant'', ''Grant''),
     (''Acquisitions'', ''Acquisitions''),
     (''Entertainment'', ''Entertainment''),
     (''Long term medical supply or device loan'', ''Device / Supply Loan'')]"

text \<open>Lines 83 to 87: \<^verbatim>\<open>.map(nature_map).fillna("Other")\<close>.\<close>

definition clean_payment_type :: "string option \<Rightarrow> string" where
  "clean_payment_type pt =
     (case Option.bind pt nature_map of None \<Rightarrow> ''Other'' | Some s \<Rightarrow> s)"

text \<open>
  Line 47 keeps the rows whose amount is greater than 0; the comparison is false on a
  missing amount. Lines 50 to 88 rename the columns and add the cleaned ones.
\<close>

definition positive_amount :: "raw_payment \<Rightarrow> bool" where
  "positive_amount r =
     (case Total_Amount_of_Payment_USDollars r of None \<Rightarrow> False | Some a \<Rightarrow> a > 0)"

definition clean_row :: "raw_payment \<Rightarrow> payment" where
  "clean_row r =
     \<lparr> state = (case Recipient_State r of None \<Rightarrow> ''Unknown'' | Some s \<Rightarrow> s),
       payment_amount = the (Total_Amount_of_Payment_USDollars r),
       specialty_clean = clean_specialty (Covered_Recipient_Specialty_1 r),
       payment_type_clean = clean_payment_type (Nature_of_Payment_or_Transfer_of_Value r),
       specialty = Covered_Recipient_Specialty_1 r,
       payment_type = Nature_of_Payment_or_Transfer_of_Value r \<rparr>"

definition cms_cleaning :: "raw_payment list \<Rightarrow> payment list" where
  "cms_cleaning payments_df = map clean_row (filter positive_amount payments_df)"

text \<open>
  The specification's reading of the specialty step, for comparison: the last segment that
  is not empty after trimming, and \<open>''Unknown''\<close> when there is none.
\<close>

definition spec_clean_specialty :: "string option \<Rightarrow> string" where
  "spec_clean_specialty sp =
     (case sp of
        None \<Rightarrow> ''Unknown''
      | Some s \<Rightarrow>
          (case filter (\<lambda>t. t \<noteq> []) (map strip (split_on CHR ''|'' s)) of
             [] \<Rightarrow> ''Unknown''
           | ts \<Rightarrow> last ts))"


section \<open>preprocessing.py, step 4: the census indicators\<close>

text \<open>
  The census file after \<^verbatim>\<open>read_csv(...).set_index('Label (Grouping)')\<close>: the index
  (one label per row), the column names, and the cell of row \<open>i\<close> and column \<open>j\<close> as the
  text \<^verbatim>\<open>astype(str)\<close> gives for it.
\<close>

record acs_table =
  labels :: "string list"
  colnames :: "string list"
  cell :: "nat \<Rightarrow> nat \<Rightarrow> string"

text \<open>Python's \<^verbatim>\<open>pat in s\<close> on strings.\<close>

fun contains :: "string \<Rightarrow> string \<Rightarrow> bool" where
  "contains pat [] = (pat = [])"
| "contains pat (c # cs) = (take (length pat) (c # cs) = pat \<or> contains pat cs)"

text \<open>
  Python's \<^verbatim>\<open>s.replace(pat, "")\<close> for a non-empty \<open>pat\<close>: the occurrences are found from
  the left and do not overlap.
\<close>

function remove_all :: "string \<Rightarrow> string \<Rightarrow> string" where
  "remove_all pat [] = []"
| "remove_all pat (c # cs) =
     (if pat \<noteq> [] \<and> take (length pat) (c # cs) = pat
      then remove_all pat (drop (length pat) (c # cs))
      else c # remove_all pat cs)"
  by pat_completeness auto
termination
  by (relation "measure (\<lambda>(pat, s). length s)") (auto simp: neq_Nil_conv)

text \<open>The first element of a list comprehension, \<^verbatim>\<open>[...][0]\<close>: IndexError when it is empty.\<close>

definition first_match :: "string \<Rightarrow> string list \<Rightarrow> error + string" where
  "first_match fragment idx =
     (case filter (contains fragment) idx of [] \<Rightarrow> Inl IndexError | l # _ \<Rightarrow> Inr l)"

text \<open>The positions of the rows that carry a label.\<close>

definition rows_labelled :: "string list \<Rightarrow> string \<Rightarrow> nat list" where
  "rows_labelled idx l = filter (\<lambda>i. idx ! i = l) [0 ..< length idx]"

text \<open>
  Lines 98 to 110. The columns whose name contains \<open>!!Estimate\<close> become the rows. The two
  indicator labels are the first labels that contain the fragments. Selecting
  \<^verbatim>\<open>[[income_lbl, hh_lbl]]\<close> gives one column per row of the file with such a label, so
  line 106, which names two columns, raises ValueError unless there are exactly two. Each
  cell is parsed by \<^verbatim>\<open>pd.to_numeric(..., errors='coerce')\<close> after its commas are removed;
  the parser is a parameter, \<open>None\<close> being NaN.
\<close>

record indicator_row =
  index :: string
  median_income :: "real option"
  total_households :: "real option"

definition acs_indicators ::
  "(string \<Rightarrow> real option) \<Rightarrow> acs_table \<Rightarrow> error + indicator_row list" where
  "acs_indicators to_numeric df_acs_raw =
     (let estimate_cols =
            filter (\<lambda>j. contains ''!!Estimate'' (colnames df_acs_raw ! j))
              [0 ..< length (colnames df_acs_raw)]
      in case first_match ''Median household income (dollars)'' (labels df_acs_raw) of
           Inl e \<Rightarrow> Inl e
         | Inr income_lbl \<Rightarrow>
        (case first_match ''Total households'' (labels df_acs_raw) of
           Inl e \<Rightarrow> Inl e
         | Inr hh_lbl \<Rightarrow>
        (case rows_labelled (labels df_acs_raw) income_lbl @
              rows_labelled (labels df_acs_raw) hh_lbl of
           [i, h] \<Rightarrow>
             Inr (map (\<lambda>j.
                    \<lparr> index = colnames df_acs_raw ! j,
                      median_income = to_numeric (remove_all '','' (cell df_acs_raw i j)),
                      total_households = to_numeric (remove_all '','' (cell df_acs_raw h j)) \<rparr>)
                  estimate_cols)
         | _ \<Rightarrow> Inl ValueError)))"

text \<open>Lines 116 to 128, the dictionary \<^verbatim>\<open>state_to_abbr\<close>.\<close>

definition state_to_abbr_items :: "(string \<times> string) list" where
  "state_to_abbr_items =
    [(''Alabama'', ''AL''), (''Alaska'', ''AK''), (''Arizona'', ''AZ''), (''Arkansas'', ''AR''),
     (''California'', ''CA''), (''Colorado'', ''CO''), (''Connecticut'', ''CT''),
     (''Delaware'', ''DE''), (''Florida'', ''FL''), (''Georgia'', ''GA''),
     (''Hawaii'', ''HI''), (''Idaho'', ''ID''), (''Illinois'', ''IL''), (''Indiana'', ''IN''),
     (''Iowa'', ''IA''), (''Kansas'', ''KS''), (''Kentucky'', ''KY''), (''Louisiana'', ''LA''),
     (''Maine'', ''ME''), (''Maryland'', ''MD''), (''Massachusetts'', ''MA''),
     (''Michigan'', ''MI''), (''Minnesota'', ''MN''), (''Mississippi'', ''MS''),
     (''Missouri'', ''MO''), (''Montana'', ''MT''), (''Nebraska'', ''NE''), (''Nevada'', ''NV''),
     (''New Hampshire'', ''NH''), (''New Jersey'', ''NJ''), (''New Mexico'', ''NM''),
     (''New York'', ''NY''), (''North Carolina'', ''NC''), (''North Dakota'', ''ND''),
     (''Ohio'', ''OH''), (''Oklahoma'', ''OK''), (''Oregon'', ''OR''), (''Pennsylvania'', ''PA''),
     (''Rhode Island'', ''RI''), (''South Carolina'', ''SC''), (''South Dakota'', ''SD''),
     (''Tennessee'', ''TN''), (''Texas'', ''TX''), (''Utah'', ''UT''), (''Vermont'', ''VT''),
     (''Virginia'', ''VA''), (''Washington'', ''WA''), (''West Virginia'', ''WV''),
     (''Wisconsin'', ''WI''), (''Wyoming'', ''WY''), (''District of Columbia'', ''DC'')]"

definition state_to_abbr :: "string \<rightharpoonup> string" where
  "state_to_abbr = map_of state_to_abbr_items"

text \<open>
  Lines 113 to 129: the index loses every \<open>!!Estimate\<close>, becomes the column
  \<open>state_name\<close>, and \<open>state_abbr\<close> is its image under the dictionary, missing when the
  name is not a key. The indicator columns are kept as a group.
\<close>

record acs_row =
  state_name :: string
  indicators :: indicator_row
  state_abbr :: "string option"

definition map_state_abbr :: "indicator_row list \<Rightarrow> acs_row list" where
  "map_state_abbr df_policy_acs =
     map (\<lambda>r. let name = remove_all ''!!Estimate'' (index r) in
            \<lparr> state_name = name, indicators = r, state_abbr = state_to_abbr name \<rparr>)
         df_policy_acs"

definition acs_preparation ::
  "(string \<Rightarrow> real option) \<Rightarrow> acs_table \<Rightarrow> error + acs_row list" where
  "acs_preparation to_numeric df_acs_raw =
     (case acs_indicators to_numeric df_acs_raw of
        Inl e \<Rightarrow> Inl e
      | Inr df_policy_acs \<Rightarrow> Inr (map_state_abbr df_policy_acs))"

section \<open>preprocessing.py, steps 5 and 6: merging and aggregating\<close>

text \<open>
  \<^verbatim>\<open>groupby(keys)['payment_amount'].sum().reset_index()\<close>: one row per distinct key, the
  keys in ascending order, with the sum of the amounts of the rows that have the key.
\<close>

definition groupby_sum ::
  "('r \<Rightarrow> 'k::linorder) \<Rightarrow> ('r \<Rightarrow> real) \<Rightarrow> 'r list \<Rightarrow> ('k \<times> real) list" where
  "groupby_sum key amount df =
     map (\<lambda>k. (k, sum_list (map amount (filter (\<lambda>r. key r = k) df))))
       (sort (remdups (map key df)))"

definition state_summary :: "payment list \<Rightarrow> state_total list" where
  "state_summary payments_df =
     map (\<lambda>(k, v). \<lparr> state = k, payment_amount = v \<rparr>)
       (groupby_sum state payment_amount payments_df)"

definition detail_data :: "payment list \<Rightarrow> detail list" where
  "detail_data payments_df =
     map (\<lambda>((s, sp, pt), v).
            \<lparr> state = s, payment_amount = v, specialty_clean = sp, payment_type_clean = pt \<rparr>)
       (groupby_sum (\<lambda>r. (state r, specialty_clean r, payment_type_clean r))
          payment_amount payments_df)"

text \<open>
  Line 135, the quotient column. The dividend is a finite amount. A missing divisor gives
  NaN; a zero divisor raises nothing in pandas and gives an infinity with the sign of the
  dividend, or NaN for \<open>0 / 0\<close>.
\<close>

definition divide_column :: "real \<Rightarrow> real option \<Rightarrow> fval" where
  "divide_column a h =
     (case h of
        None \<Rightarrow> NaN
      | Some d \<Rightarrow>
          if d \<noteq> 0 then Num (a / d)
          else if a > 0 then PosInf else if a < 0 then NegInf else NaN)"

text \<open>
  A row of \<^verbatim>\<open>map_data\<close>: the columns of the left frame, the columns of the right frame
  as \<open>acs\<close>, and the quotient.
\<close>

record map_row = state_total +
  acs :: acs_row
  payment_per_household :: fval

text \<open>
  Lines 133 to 135. The inner merge pairs every left row with every right row whose
  \<open>state_abbr\<close> is the left row's \<open>state\<close>, in the order of the left rows. A missing
  \<open>state_abbr\<close> matches no left row, the left key being a string in every row.
\<close>

definition map_data :: "payment list \<Rightarrow> acs_row list \<Rightarrow> map_row list" where
  "map_data payments_df df_policy_acs =
     concat (map (\<lambda>l.
        map (\<lambda>r. \<lparr> state = state l, payment_amount = payment_amount l, acs = r,
                     payment_per_household =
                       divide_column (payment_amount l) (total_households (indicators r)) \<rparr>)
          (filter (\<lambda>r. state_abbr r = Some (state l)) df_policy_acs))
      (state_summary payments_df))"

section \<open>preprocessing.py: the run and its files\<close>

text \<open>
  The four files the run reads or writes; \<open>None\<close> is a file that does not exist. The two
  raw files are \<^verbatim>\<open>CMS_RAW_PATH\<close> and \<^verbatim>\<open>ACS_RAW_PATH\<close>, the two derived tables are
  \<^verbatim>\<open>cms_acs_state_summary.csv\<close> and \<^verbatim>\<open>cms_payments_details.csv\<close>.
\<close>

record files =
  cms_raw :: "raw_payment list option"
  acs_raw :: "acs_table option"
  cms_acs_state_summary :: "map_row list option"
  cms_payments_details :: "detail list option"

text \<open>
  Step 2. With a cached payments file the run reads it. Without one it downloads the data,
  which either fails (\<^verbatim>\<open>raise_for_status\<close>) or gives the rows, and writes the cache.
  The outcome of the download is the parameter \<open>fetch\<close>.
\<close>

definition load_cms ::
  "error + raw_payment list \<Rightarrow> files \<Rightarrow> error + raw_payment list \<times> files" where
  "load_cms fetch fs =
     (case cms_raw fs of
        Some payments_df \<Rightarrow> Inr (payments_df, fs)
      | None \<Rightarrow>
          (case fetch of
             Inl e \<Rightarrow> Inl e
           | Inr payments_df \<Rightarrow> Inr (payments_df, fs\<lparr>cms_raw := Some payments_df\<rparr>)))"

text \<open>
  \<^verbatim>\<open>run_preprocessing\<close>, lines 18 to 143: the error that ended the run, if any, and the
  files after it.
\<close>

definition run_preprocessing ::
  "(string \<Rightarrow> real option) \<Rightarrow> error + raw_payment list \<Rightarrow> files \<Rightarrow> error option \<times> files" where
  "run_preprocessing to_numeric fetch fs =
     (case load_cms fetch fs of
        Inl e \<Rightarrow> (Some e, fs)
      | Inr (raw, fs1) \<Rightarrow>
          (let payments_df = cms_cleaning raw in
           case acs_raw fs1 of
             None \<Rightarrow> (Some FileNotFoundError, fs1)
           | Some df_acs_raw \<Rightarrow>
               (case acs_preparation to_numeric df_acs_raw of
                  Inl e \<Rightarrow> (Some e, fs1)
                | Inr df_policy_acs \<Rightarrow>
                    (let fs2 = fs1\<lparr>cms_acs_state_summary :=
                                      Some (map_data payments_df df_policy_acs)\<rparr>;
                         fs3 = fs2\<lparr>cms_payments_details := Some (detail_data payments_df)\<rparr>
                     in (None, fs3)))))"

section \<open>app.py: preparing the state table\<close>

text \<open>
  The dashboard reads the two derived tables. Of its three candidate income columns the
  state summary has \<^verbatim>\<open>median_income\<close>. Lines 31 to 43 add the columns \<open>fips_code\<close>
  and \<open>income_percentile\<close> and overwrite \<open>state_name\<close> with \<open>state\<close>.
\<close>

definition fips_map :: "string \<rightharpoonup> nat" where
  "fips_map = map_of
    [(''AL'', 1), (''AK'', 2), (''AZ'', 4), (''AR'', 5), (''CA'', 6), (''CO'', 8), (''CT'', 9),
     (''DE'', 10), (''FL'', 12), (''GA'', 13), (''HI'', 15), (''ID'', 16), (''IL'', 17),
     (''IN'', 18), (''IA'', 19), (''KS'', 20), (''KY'', 21), (''LA'', 22), (''ME'', 23),
     (''MD'', 24), (''MA'', 25), (''MI'', 26), (''MN'', 27), (''MS'', 28), (''MO'', 29),
     (''MT'', 30), (''NE'', 31), (''NV'', 32), (''NH'', 33), (''NJ'', 34), (''NM'', 35),
     (''NY'', 36), (''NC'', 37), (''ND'', 38), (''OH'', 39), (''OK'', 40), (''OR'', 41),
     (''PA'', 42), (''RI'', 44), (''SC'', 45), (''SD'', 46), (''TN'', 47), (''TX'', 48),
     (''UT'', 49), (''VT'', 50), (''VA'', 51), (''WA'', 53), (''WV'', 54), (''WI'', 55),
     (''WY'', 56), (''DC'', 11)]"

text \<open>
  \<^verbatim>\<open>Series.rank(pct=True)\<close>: a present value gets the average of the positions its equals
  take in ascending order, divided by the number of present values; a missing value stays
  missing.
\<close>

definition rank_pct :: "real option list \<Rightarrow> real option list" where
  "rank_pct col =
     (let present = concat (map (\<lambda>x. case x of None \<Rightarrow> [] | Some v \<Rightarrow> [v]) col) in
      map (map_option (\<lambda>v.
             (real (length (filter (\<lambda>w. w < v) present)) +
              (real (length (filter (\<lambda>w. w = v) present)) + 1) / 2)
             / real (length present)))
        col)"

record state_row = map_row +
  fips_code :: "nat option"
  income_percentile :: "real option"

definition prepare_states :: "map_row list \<Rightarrow> state_row list" where
  "prepare_states df_states =
     map (\<lambda>(r, rk).
            \<lparr> state = state r, payment_amount = payment_amount r,
              acs = (acs r)\<lparr>state_name := state r\<rparr>,
              payment_per_household = payment_per_household r,
              fips_code = fips_map (state r),
              income_percentile = map_option (\<lambda>x. x * 100) rk \<rparr>)
       (zip df_states (rank_pct (map (\<lambda>r. median_income (indicators (acs r))) df_states)))"

section \<open>app.py: the filter logic\<close>

text \<open>
  Lines 78 to 81: the states whose percentile is within the slider's range; a comparison
  with a missing percentile is false. The range is a pair of integers.
\<close>

definition wealth_eligible_states :: "state_row list \<Rightarrow> int \<times> int \<Rightarrow> string list" where
  "wealth_eligible_states df_states income_range =
     map state
       (filter (\<lambda>r. case income_percentile r of
                        None \<Rightarrow> False
                      | Some p \<Rightarrow> p \<ge> of_int (fst income_range) \<and> p \<le> of_int (snd income_range))
          df_states)"

text \<open>Line 84.\<close>

definition final_state_list :: "string list \<Rightarrow> string list \<Rightarrow> string list" where
  "final_state_list selected_states eligible = filter (\<lambda>s. s \<in> set eligible) selected_states"

text \<open>Lines 86 to 89.\<close>

definition select_rows :: "detail list \<Rightarrow> string list \<Rightarrow> string list \<Rightarrow> detail list" where
  "select_rows df_details selected_specialty states =
     filter (\<lambda>r. specialty_clean r \<in> set selected_specialty \<and> state r \<in> set states)
       df_details"

text \<open>
  \<^verbatim>\<open>Series.quantile(q)\<close> with the default linear interpolation, for \<open>0 \<le> q \<le> 1\<close> (pandas
  raises outside; the sliders keep \<open>top_percent\<close> between 1 and 100). The sample is
  sorted, the position \<open>(n - 1) * q\<close> is split into its floor and its fraction, and the
  result lies that fraction of the way from the value at the floor to the next value, the
  next index being clipped to the last. The quantile of an empty column is NaN.
\<close>

definition quantile :: "real list \<Rightarrow> real \<Rightarrow> real option" where
  "quantile xs q =
     (if xs = [] then None
      else
        (let s = sort xs;
             n = length s;
             pos = real (n - 1) * q;
             lo = nat \<lfloor>pos\<rfloor>;
             hi = min (lo + 1) (n - 1);
             frac = pos - real lo
         in Some (s ! lo + (s ! hi - s ! lo) * frac)))"

text \<open>\<^verbatim>\<open>amount >= threshold\<close>, false when the threshold is NaN.\<close>

definition at_least :: "real option \<Rightarrow> real \<Rightarrow> bool" where
  "at_least threshold a = (case threshold of None \<Rightarrow> False | Some t \<Rightarrow> a \<ge> t)"

text \<open>
  Lines 92 to 94, in exact arithmetic: the order \<open>1 - top_percent / 100\<close> and the
  threshold are not rounded. The rounding of line 93 is modelled below, in
  \<open>top_percent_filter_fp\<close>.
\<close>

definition top_percent_filter :: "real \<Rightarrow> detail list \<Rightarrow> detail list" where
  "top_percent_filter top_percent filtered_df =
     (if top_percent < 100 \<and> length filtered_df > 0
      then
        (let threshold = quantile (map payment_amount filtered_df) (1 - top_percent / 100)
         in filter (\<lambda>r. at_least threshold (payment_amount r)) filtered_df)
      else filtered_df)"

text \<open>Lines 78 to 94 together: the rows the metrics and the charts are computed from.\<close>

definition filtered_df ::
  "detail list \<Rightarrow> state_row list \<Rightarrow> string list \<Rightarrow> string list \<Rightarrow> int \<times> int \<Rightarrow> real
     \<Rightarrow> detail list" where
  "filtered_df df_details df_states selected_states selected_specialty income_range top_percent =
     top_percent_filter top_percent
       (select_rows df_details selected_specialty
          (final_state_list selected_states (wealth_eligible_states df_states income_range)))"

section \<open>app.py: the metrics\<close>

text \<open>Line 101; the sum of an empty column is 0.\<close>

definition total_payments :: "detail list \<Rightarrow> real" where
  "total_payments df = sum_list (map payment_amount df)"




text \<open>
  Lines 134 to 138, the Lorenz table: \<open>None\<close> when the frame is empty and no chart is
  drawn. \<^verbatim>\<open>sort_values\<close> orders by amount; which of two rows with equal amounts comes
  first does not change the three columns added here.
\<close>

fun cumsum :: "real \<Rightarrow> real list \<Rightarrow> real list" where
  "cumsum acc [] = []"
| "cumsum acc (x # xs) = (acc + x) # cumsum (acc + x) xs"

record lorenz_row = detail +
  cum_money :: real
  cum_percent_money :: fval
  cum_percent_people :: real

definition lorenz_df :: "detail list \<Rightarrow> lorenz_row list option" where
  "lorenz_df df =
     (if length df > 0
      then
        (let sorted_df = sort_key payment_amount df;
             total = sum_list (map payment_amount sorted_df);
             n = length sorted_df
         in Some (map (\<lambda>(r, c, i).
                    \<lparr> state = state r, payment_amount = payment_amount r,
                      specialty_clean = specialty_clean r,
                      payment_type_clean = payment_type_clean r,
                      cum_money = c,
                      cum_percent_money = divide_column c (Some total),
                      cum_percent_people = real i / real n \<rparr>)
                  (zip sorted_df (zip (cumsum 0 (map payment_amount sorted_df)) [1 ..< n + 1]))))
      else None)"


section \<open>app.py: line 93 in floating point\<close>











section \<open>The interpolation step of the quantile\<close>


section \<open>Example inputs\<close>

text \<open>
  A small payments file and census file, and the frames the run computes from them; the
  theorems below are instantiated on them.
\<close>

definition example_payments :: "raw_payment list" where
  "example_payments =
    [\<lparr> Covered_Recipient_Specialty_1 = Some ''Allopathic|Cardiology'',
       Total_Amount_of_Payment_USDollars = Some 100,
       Nature_of_Payment_or_Transfer_of_Value = Some ''Consulting Fee'',
       Recipient_State = Some ''CA'' \<rparr>,
     \<lparr> Covered_Recipient_Specialty_1 = Some ''Cardiology'',
       Total_Amount_of_Payment_USDollars = Some 900,
       Nature_of_Payment_or_Transfer_of_Value = Some ''Consulting Fee'',
       Recipient_State = Some ''CA'' \<rparr>,
     \<lparr> Covered_Recipient_Specialty_1 = None,
       Total_Amount_of_Payment_USDollars = Some 50,
       Nature_of_Payment_or_Transfer_of_Value = Some ''Gift'',
       Recipient_State = Some ''PR'' \<rparr>,
     \<lparr> Covered_Recipient_Specialty_1 = Some ''Cardiology'',
       Total_Amount_of_Payment_USDollars = Some 0,
       Nature_of_Payment_or_Transfer_of_Value = Some ''Grant'',
       Recipient_State = Some ''TX'' \<rparr>,
     \<lparr> Covered_Recipient_Specialty_1 = Some ''Surgery|'',
       Total_Amount_of_Payment_USDollars = Some 70,
       Nature_of_Payment_or_Transfer_of_Value = Some ''Grant'',
       Recipient_State = Some ''TX'' \<rparr>,
     \<lparr> Covered_Recipient_Specialty_1 = Some ''Surgery'',
       Total_Amount_of_Payment_USDollars = None,
       Nature_of_Payment_or_Transfer_of_Value = None,
       Recipient_State = None \<rparr>]"

definition example_census :: acs_table where
  "example_census =
    \<lparr> labels = [''Median household income (dollars)'', ''Total households''],
      colnames = [''California!!Estimate'', ''California!!Margin of Error'',
                  ''Texas!!Estimate'', ''Puerto Rico!!Estimate''],
      cell = (\<lambda>i j. [[''95,521'', ''447'', ''75,780'', ''N''],
                      [''2'', ''1'', ''0'', ''1,289'']] ! i ! j) \<rparr>"

definition example_to_numeric :: "string \<Rightarrow> real option" where
  "example_to_numeric s =
     (if s = ''95521'' then Some 95521 else if s = ''75780'' then Some 75780
      else if s = ''1289'' then Some 1289 else if s = ''2'' then Some 2
      else if s = ''0'' then Some 0 else None)"


definition example_policy_acs :: "acs_row list" where
  "example_policy_acs =
    [\<lparr> state_name = ''California'',
       indicators = \<lparr> index = ''California!!Estimate'', median_income = Some 95521,
                      total_households = Some 2 \<rparr>,
       state_abbr = Some ''CA'' \<rparr>,
     \<lparr> state_name = ''Texas'',
       indicators = \<lparr> index = ''Texas!!Estimate'', median_income = Some 75780,
                      total_households = Some 0 \<rparr>,
       state_abbr = Some ''TX'' \<rparr>,
     \<lparr> state_name = ''Puerto Rico'',
       indicators = \<lparr> index = ''Puerto Rico!!Estimate'', median_income = None,
                      total_households = Some 1289 \<rparr>,
       state_abbr = None \<rparr>]"

definition example_map_data :: "map_row list" where
  "example_map_data =
    [\<lparr> state = ''CA'', payment_amount = 1000, acs = example_policy_acs ! 0,
       payment_per_household = Num 500 \<rparr>,
     \<lparr> state = ''TX'', payment_amount = 70, acs = example_policy_acs ! 1,
       payment_per_household = PosInf \<rparr>]"

definition example_detail_data :: "detail list" where
  "example_detail_data =
    [\<lparr> state = ''CA'', payment_amount = 1000, specialty_clean = ''Cardiology'',
       payment_type_clean = ''Consulting'' \<rparr>,
     \<lparr> state = ''PR'', payment_amount = 50, specialty_clean = ''Unknown'',
       payment_type_clean = ''Other'' \<rparr>,
     \<lparr> state = ''TX'', payment_amount = 70, specialty_clean = [],
       payment_type_clean = ''Grant'' \<rparr>]"




section \<open>Properties of the cleaning step\<close>

lemma split_on_nonempty: "split_on d s \<noteq> []"
  by (induction s) (auto simp: Let_def)

lemma split_on_no_sep: "d \<notin> set s \<Longrightarrow> split_on d s = [s]"
  by (induction s) (auto simp: Let_def)

lemma split_on_sep: "d \<in> set s \<Longrightarrow> tl (split_on d s) \<noteq> []"
  by (induction s) (auto simp: Let_def split_on_nonempty)

lemma last_split_on:
  "\<exists>pre. s = pre @ last (split_on d s) \<and> d \<notin> set (last (split_on d s)) \<and> (pre = [] \<or> last pre = d)"
proof (induction s)
  case Nil
  then show ?case by simp
next
  case (Cons c cs)
  then obtain pre where pre: "cs = pre @ last (split_on d cs)" "d \<notin> set (last (split_on d cs))"
    "pre = [] \<or> last pre = d" by blast
  show ?case
  proof (cases "c = d")
    case True
    then have "last (split_on d (c # cs)) = last (split_on d cs)"
      using split_on_nonempty[of d cs] by (simp add: Let_def)
    with pre True show ?thesis
      by (intro exI[of _ "c # pre"]) auto
  next
    case False
    show ?thesis
    proof (cases "d \<in> set cs")
      case True
      then have t: "tl (split_on d cs) \<noteq> []" by (rule split_on_sep)
      then have l: "last (split_on d (c # cs)) = last (split_on d cs)"
        using False by (cases "split_on d cs") (auto simp: Let_def)
      have "pre \<noteq> []" using pre True by auto
      with pre l show ?thesis
        by (intro exI[of _ "c # pre"]) auto
    next
      case nd: False
      then show ?thesis using False
        by (intro exI[of _ "[]"]) (simp add: split_on_no_sep Let_def)
    qed
  qed
qed

lemma last_filter_map:
  assumes "xs \<noteq> []" "P (f (last xs))"
  shows "last (filter P (map f xs)) = f (last xs)"
proof -
  obtain ys where "xs = ys @ [last xs]" using assms(1) by (metis append_butlast_last_id)
  then have "filter P (map f xs) = filter P (map f ys) @ [f (last xs)]"
    using assms(2) by (metis (no_types) filter.simps filter_append list.simps(8,9) map_append)
  then show ?thesis by simp
qed

lemma strip_hd: "strip s \<noteq> [] \<Longrightarrow> \<not> is_space (hd (strip s))"
  unfolding strip_def
  by (metis Nil_is_rev_conv dropWhile.simps(1) dropWhile_eq_Nil_conv
    dropWhile_last hd_dropWhile last_rev rev_rev_ident)

lemma strip_last: "strip s \<noteq> [] \<Longrightarrow> \<not> is_space (last (strip s))"
  unfolding strip_def by (simp add: hd_dropWhile last_rev)

text \<open>
  Claim C2, as amended. The cleaned specialty of a present raw string is its last
  pipe-delimited segment, trimmed: the part after the last \<open>|\<close> (the whole string when
  there is none), without the whitespace at its two ends. When that is not empty it is also
  the last non-empty trimmed segment the specification describes. When it is empty, as for
  a raw string that ends in \<open>|\<close> or is blank, the cleaned specialty is the empty string
  and not \<open>''Unknown''\<close>. A missing raw specialty becomes \<open>''Unknown''\<close>.
\<close>

theorem clean_specialty_last_segment:
  "clean_specialty None = ''Unknown'' \<and>
   (let seg = last (split_on CHR ''|'' s) in
      (\<exists>pre. s = pre @ seg \<and> (pre = [] \<or> last pre = CHR ''|'')) \<and>
      CHR ''|'' \<notin> set seg \<and>
      clean_specialty (Some s) = strip seg \<and>
      (strip seg \<noteq> [] \<longrightarrow>
         \<not> is_space (hd (clean_specialty (Some s))) \<and>
         \<not> is_space (last (clean_specialty (Some s))) \<and>
         clean_specialty (Some s) = spec_clean_specialty (Some s)) \<and>
      (strip seg = [] \<longrightarrow>
         clean_specialty (Some s) = [] \<and> clean_specialty (Some s) \<noteq> ''Unknown''))"
proof -
  define seg where "seg = last (split_on CHR ''|'' s)"
  have c: "clean_specialty (Some s) = strip seg"
    by (simp add: clean_specialty_def seg_def)
  have p: "\<exists>pre. s = pre @ seg \<and> (pre = [] \<or> last pre = CHR ''|'')" and n: "CHR ''|'' \<notin> set seg"
    using last_split_on[of s "CHR ''|''"] unfolding seg_def by blast+
  have sp: "clean_specialty (Some s) = spec_clean_specialty (Some s)" if ne: "strip seg \<noteq> []"
  proof -
    have "last (filter (\<lambda>t. t \<noteq> []) (map strip (split_on CHR ''|'' s))) = strip seg"
      unfolding seg_def using ne split_on_nonempty[of "CHR ''|''" s]
      by (intro last_filter_map) (simp_all add: seg_def)
    moreover have "strip seg \<in> set (map strip (split_on CHR ''|'' s))"
      unfolding seg_def using split_on_nonempty[of "CHR ''|''" s] by simp
    then have "filter (\<lambda>t. t \<noteq> []) (map strip (split_on CHR ''|'' s)) \<noteq> []"
      using ne by (auto simp: filter_empty_conv)
    ultimately show ?thesis
      using c by (cases "filter (\<lambda>t. t \<noteq> []) (map strip (split_on CHR ''|'' s))")
        (simp_all add: spec_clean_specialty_def)
  qed
  have u: "clean_specialty None = ''Unknown''" by (simp add: clean_specialty_def)
  have h: "\<not> is_space (hd (clean_specialty (Some s)))"
    and l: "\<not> is_space (last (clean_specialty (Some s)))" if "strip seg \<noteq> []"
    using that strip_hd[of seg] strip_last[of seg] by (simp_all add: c)
  show ?thesis
    unfolding Let_def seg_def[symmetric]
  proof (intro conjI impI)
    show "clean_specialty None = ''Unknown''" by (rule u)
    show "\<exists>pre. s = pre @ seg \<and> (pre = [] \<or> last pre = CHR ''|'')" by (rule p)
    show "CHR ''|'' \<notin> set seg" by (rule n)
    show "clean_specialty (Some s) = strip seg" by (rule c)
    show "\<not> is_space (hd (clean_specialty (Some s)))" if "strip seg \<noteq> []"
      using that by (rule h)
    show "\<not> is_space (last (clean_specialty (Some s)))" if "strip seg \<noteq> []"
      using that by (rule l)
    show "clean_specialty (Some s) = spec_clean_specialty (Some s)" if "strip seg \<noteq> []"
      using that by (rule sp)
    show "clean_specialty (Some s) = []" if "strip seg = []"
      using that c by simp
    show "clean_specialty (Some s) \<noteq> ''Unknown''" if "strip seg = []"
      using that c by simp
  qed
qed

theorem clean_specialty_last_segment_witness:
  "strip (last (split_on CHR ''|'' ''Allopathic|Cardiology '')) \<noteq> [] \<and>
   clean_specialty (Some ''Allopathic|Cardiology '') = ''Cardiology'' \<and>
   spec_clean_specialty (Some ''Allopathic|Cardiology '') = ''Cardiology'' \<and>
   strip (last (split_on CHR ''|'' ''Surgery|'')) = [] \<and>
   clean_specialty (Some ''Surgery|'') = []"
proof -
  have e: "strip (last (split_on CHR ''|'' ''Surgery|'')) = []"
    by (simp add: Let_def strip_def)
  from clean_specialty_last_segment[of "''Surgery|''"] e
  have b: "clean_specialty (Some ''Surgery|'') = []"
    unfolding Let_def by blast
  have h: "strip (last (split_on CHR ''|'' ''Allopathic|Cardiology '')) \<noteq> []"
    by (simp add: Let_def strip_def is_space_def)
  have v: "clean_specialty (Some ''Allopathic|Cardiology '') = ''Cardiology''"
    by (simp add: clean_specialty_def Let_def strip_def is_space_def)
  from clean_specialty_last_segment[of "''Allopathic|Cardiology ''"] h
  have "clean_specialty (Some ''Allopathic|Cardiology '') =
      spec_clean_specialty (Some ''Allopathic|Cardiology '')"
    unfolding Let_def by blast
  with h v e b show ?thesis by simp
qed

text \<open>
  Claim C2 as the specification states it fails: a raw string that ends in \<open>|\<close>, or that
  is blank, is cleaned to the empty string, which is neither the last non-empty segment
  nor \<open>''Unknown''\<close>.
\<close>

theorem clean_specialty_counterexample:
  "clean_specialty (Some ''Cardiology|'') = [] \<and>
   spec_clean_specialty (Some ''Cardiology|'') = ''Cardiology'' \<and>
   clean_specialty (Some '' '') = [] \<and>
   spec_clean_specialty (Some '' '') = ''Unknown''"
  by (simp add: clean_specialty_def spec_clean_specialty_def Let_def strip_def is_space_def)


section \<open>Properties of the pipeline\<close>

lemma groupby_sum_keys: "map fst (groupby_sum key amount df) = sort (remdups (map key df))"
  by (simp add: groupby_sum_def comp_def)

lemma state_summary_states: "map state (state_summary p) = sort (remdups (map state p))"
  by (simp add: state_summary_def groupby_sum_def comp_def)

lemma detail_data_states: "set (map state (detail_data p)) = state ` set p"
  by (force simp add: detail_data_def groupby_sum_def comp_def image_iff)

lemma sum_list_pos_real: "xs \<noteq> [] \<Longrightarrow> (\<forall>x\<in>set xs. 0 < x) \<Longrightarrow> 0 < sum_list (xs :: real list)"
  by (induction xs) (auto intro: add_pos_nonneg sum_list_nonneg less_imp_le)

lemma groupby_sum_pos:
  assumes "\<forall>r\<in>set df. 0 < amount r" "(k, v) \<in> set (groupby_sum key amount df)"
  shows "0 < v"
proof -
  from assms(2) have k: "k \<in> key ` set df" and v: "v = sum_list (map amount (filter (\<lambda>r. key r = k) df))"
    by (auto simp: groupby_sum_def)
  from k have "filter (\<lambda>r. key r = k) df \<noteq> []" by (auto simp: filter_empty_conv)
  then show ?thesis unfolding v using assms(1) by (intro sum_list_pos_real) auto
qed

lemma cms_cleaning_pos: "r \<in> set (cms_cleaning raw) \<Longrightarrow> 0 < payment_amount r"
  by (auto simp: cms_cleaning_def clean_row_def positive_amount_def split: option.splits)

lemma state_summary_pos:
  "\<forall>r\<in>set p. 0 < payment_amount r \<Longrightarrow> t \<in> set (state_summary p) \<Longrightarrow> 0 < payment_amount t"
  by (auto simp: state_summary_def dest: groupby_sum_pos)

lemma detail_data_pos:
  "\<forall>r\<in>set p. 0 < payment_amount r \<Longrightarrow> t \<in> set (detail_data p) \<Longrightarrow> 0 < payment_amount t"
  by (auto simp: detail_data_def dest: groupby_sum_pos)

text \<open>
  Claim C1, as amended. In every row of the state summary the payment total is positive,
  and \<open>payment_per_household\<close> is the total divided by \<open>total_households\<close> when that
  is present and not zero, NaN (null) when it is missing, and positive infinity, with no
  error raised, when it is zero.
\<close>

theorem payment_per_household_quotient:
  "m \<in> set (map_data (cms_cleaning raw) df_policy_acs) \<Longrightarrow>
     0 < payment_amount m \<and>
     payment_per_household m =
       (case total_households (indicators (acs m)) of
          None \<Rightarrow> NaN
        | Some h \<Rightarrow> if h = 0 then PosInf else Num (payment_amount m / h))"
proof -
  assume "m \<in> set (map_data (cms_cleaning raw) df_policy_acs)"
  then obtain l r where l: "l \<in> set (state_summary (cms_cleaning raw))"
    and m: "m = \<lparr> state = state l, payment_amount = payment_amount l, acs = r,
                     payment_per_household =
                       divide_column (payment_amount l) (total_households (indicators r)) \<rparr>"
    by (auto simp: map_data_def)
  have "0 < payment_amount l"
    using l cms_cleaning_pos state_summary_pos by blast
  then show ?thesis unfolding m by (simp add: divide_column_def split: option.splits)
qed

text \<open>
  Claim C9. When the census file does not exist the run ends with an error and neither
  derived table is written: both are as they were before the run, and the census file is
  still missing. When the payments were loaded, from the cache or by a download that
  succeeded, the error is the FileNotFoundError of line 93.
\<close>

theorem missing_census_file_aborts:
  assumes "acs_raw fs = None"
  shows "(\<exists>e. fst (run_preprocessing to_numeric fetch fs) = Some e) \<and>
     cms_acs_state_summary (snd (run_preprocessing to_numeric fetch fs)) = cms_acs_state_summary fs \<and>
     cms_payments_details (snd (run_preprocessing to_numeric fetch fs)) = cms_payments_details fs \<and>
     acs_raw (snd (run_preprocessing to_numeric fetch fs)) = None \<and>
     ((cms_raw fs \<noteq> None \<or> isl fetch = False) \<longrightarrow>
        fst (run_preprocessing to_numeric fetch fs) = Some FileNotFoundError)"
  using assms
  by (auto simp: run_preprocessing_def load_cms_def split: option.splits sum.splits)

lemma distinct_filter_eq_le1: "distinct ys \<Longrightarrow> length (filter (\<lambda>x. x = c) ys) \<le> Suc 0"
  by (induction ys) (auto simp: filter_empty_conv)

lemma matches_le1:
  assumes "distinct (filter (\<lambda>x. x \<noteq> None) (map state_abbr a))"
  shows "length (filter (\<lambda>r. state_abbr r = Some s) a) \<le> Suc 0"
proof -
  have "length (filter (\<lambda>r. state_abbr r = Some s) a)
      = length (filter (\<lambda>x. x = Some s) (map state_abbr a))"
    by (induction a) auto
  also have "filter (\<lambda>x. x = Some s) (map state_abbr a)
      = filter (\<lambda>x. x = Some s) (filter (\<lambda>x. x \<noteq> None) (map state_abbr a))"
    by (induction a) auto
  finally show ?thesis using distinct_filter_eq_le1[OF assms] by simp
qed

lemma le1_cases: "length xs \<le> Suc 0 \<Longrightarrow> xs = [] \<or> (\<exists>x. xs = [x])"
  by (cases xs) auto

lemma merged_states:
  assumes "\<And>s. length (filter (\<lambda>r. state_abbr r = Some s) a) \<le> Suc 0"
    and "\<And>l r. state (f l r) = state l"
  shows "map state (concat (map (\<lambda>l. map (f l) (filter (\<lambda>r. state_abbr r = Some (state l)) a)) L))
       = filter (\<lambda>s. Some s \<in> state_abbr ` set a) (map state L)"
proof (induction L)
  case Nil
  then show ?case by simp
next
  case (Cons l L)
  let ?m = "filter (\<lambda>r. state_abbr r = Some (state l)) a"
  have "map state (map (f l) ?m) = (if Some (state l) \<in> state_abbr ` set a then [state l] else [])"
  proof (cases "?m = []")
    case True
    then have "Some (state l) \<notin> state_abbr ` set a"
      by (auto simp: filter_empty_conv)
    with True show ?thesis by simp
  next
    case False
    then obtain x where x: "?m = [x]" using le1_cases[OF assms(1)[of "state l"]] by blast
    then have "x \<in> set ?m" by simp
    then have "Some (state l) \<in> state_abbr ` set a" by force
    with x show ?thesis by (simp add: assms(2))
  qed
  with Cons show ?case by simp
qed

text \<open>
  Claim C7. When no two census rows have the same state abbreviation, the state summary
  has exactly one row for each state that is both a state of the cleaned payments and the
  abbreviation of a census row, and no other row. Every state of the payments, also one
  without a census row, is a state of the detail table.
\<close>

theorem state_summary_inner_join:
  assumes "distinct (filter (\<lambda>x. x \<noteq> None) (map state_abbr df_policy_acs))"
  shows "distinct (map state (map_data payments_df df_policy_acs)) \<and>
     set (map state (map_data payments_df df_policy_acs)) =
       {s \<in> state ` set payments_df. Some s \<in> state_abbr ` set df_policy_acs} \<and>
     set (map state (detail_data payments_df)) = state ` set payments_df"
proof -
  have eq: "map state (map_data payments_df df_policy_acs) =
      filter (\<lambda>s. Some s \<in> state_abbr ` set df_policy_acs) (sort (remdups (map state payments_df)))"
    unfolding map_data_def state_summary_states[symmetric]
    by (rule merged_states) (simp_all add: matches_le1[OF assms])
  show ?thesis
    unfolding eq using detail_data_states[of payments_df] by auto
qed

lemma map_state_abbr_dom:
  "r \<in> set (map_state_abbr inds) \<Longrightarrow>
     state_name r = remove_all ''!!Estimate'' (index (indicators r)) \<and>
     state_abbr r = state_to_abbr (state_name r)"
  by (auto simp: map_state_abbr_def Let_def)

lemma abbr_length: "\<forall>a \<in> snd ` set state_to_abbr_items. length a = 2"
  by (simp add: state_to_abbr_items_def)

lemma abbr_distinct: "distinct (map snd state_to_abbr_items)"
  by code_simp

lemma abbr_card: "card (snd ` set state_to_abbr_items) = 51"
proof -
  have "card (set (map snd state_to_abbr_items)) = length (map snd state_to_abbr_items)"
    using abbr_distinct by (rule distinct_card)
  also have "\<dots> = 51" by (simp add: state_to_abbr_items_def)
  finally show ?thesis by simp
qed

text \<open>
  Claim C10. The state name of a census row is its column name without \<open>!!Estimate\<close>.
  A row whose name is not one of the 51 keys of \<open>state_to_abbr\<close> has a missing
  abbreviation and is the census part of no row of the state summary. Every \<open>state\<close> of
  the state summary is one of the 51 abbreviations of the dictionary, each two letters long.
\<close>

theorem unmapped_census_rows_excluded:
  assumes "acs_preparation to_numeric df_acs_raw = Inr df_policy_acs"
  shows "(\<forall>r \<in> set df_policy_acs.
            state_name r = remove_all ''!!Estimate'' (index (indicators r)) \<and>
            (state_name r \<notin> fst ` set state_to_abbr_items \<longrightarrow>
               state_abbr r = None \<and> r \<notin> acs ` set (map_data payments_df df_policy_acs))) \<and>
         (\<forall>m \<in> set (map_data payments_df df_policy_acs).
            state m \<in> snd ` set state_to_abbr_items \<and> length (state m) = 2) \<and>
         card (snd ` set state_to_abbr_items) = 51"
proof -
  from assms obtain inds where d: "df_policy_acs = map_state_abbr inds"
    by (auto simp: acs_preparation_def split: sum.splits)
  have a: "state_name r = remove_all ''!!Estimate'' (index (indicators r))"
    and b: "state_abbr r = state_to_abbr (state_name r)" if "r \<in> set df_policy_acs" for r
    using that map_state_abbr_dom unfolding d by blast+
  have m: "acs m \<in> set df_policy_acs \<and> state_abbr (acs m) = Some (state m)"
    if "m \<in> set (map_data payments_df df_policy_acs)" for m
    using that by (auto simp: map_data_def)
  have none: "state_abbr r = None" if "r \<in> set df_policy_acs" "state_name r \<notin> fst ` set state_to_abbr_items" for r
    using that b[OF that(1)] by (simp add: state_to_abbr_def map_of_eq_None_iff)
  have st: "state m \<in> snd ` set state_to_abbr_items" if "m \<in> set (map_data payments_df df_policy_acs)" for m
  proof -
    from m[OF that] b[of "acs m"] have "state_to_abbr (state_name (acs m)) = Some (state m)" by simp
    then have "(state_name (acs m), state m) \<in> set state_to_abbr_items"
      unfolding state_to_abbr_def by (rule map_of_SomeD)
    then show ?thesis by force
  qed
  have ex: "r \<notin> acs ` set (map_data payments_df df_policy_acs)"
    if "r \<in> set df_policy_acs" "state_name r \<notin> fst ` set state_to_abbr_items" for r
    using none[OF that] m by force
  show ?thesis
  proof (intro conjI ballI impI)
    fix r assume r: "r \<in> set df_policy_acs"
    show "state_name r = remove_all ''!!Estimate'' (index (indicators r))" by (rule a[OF r])
    assume n: "state_name r \<notin> fst ` set state_to_abbr_items"
    show "state_abbr r = None" by (rule none[OF r n])
    show "r \<notin> acs ` set (map_data payments_df df_policy_acs)" by (rule ex[OF r n])
  next
    fix m assume m: "m \<in> set (map_data payments_df df_policy_acs)"
    show "state m \<in> snd ` set state_to_abbr_items" by (rule st[OF m])
    then show "length (state m) = 2" using abbr_length by blast
  next
    show "card (snd ` set state_to_abbr_items) = 51" by (rule abbr_card)
  qed
qed

lemma example_acs_preparation:
  "acs_preparation example_to_numeric example_census = Inr example_policy_acs"
  by code_simp

lemma example_map_data_eval:
  "map_data (cms_cleaning example_payments) example_policy_acs = example_map_data"
  by code_simp

lemma example_detail_data_eval:
  "detail_data (cms_cleaning example_payments) = example_detail_data"
  by code_simp

theorem payment_per_household_quotient_witness:
  "example_map_data ! 0 \<in> set (map_data (cms_cleaning example_payments) example_policy_acs) \<and>
   total_households (indicators (acs (example_map_data ! 0))) = Some 2 \<and>
   0 < payment_amount (example_map_data ! 0) \<and>
   payment_per_household (example_map_data ! 0) = Num (1000 / 2)"
proof -
  have mem: "example_map_data ! 0 \<in> set (map_data (cms_cleaning example_payments) example_policy_acs)"
    by (simp add: example_map_data_eval example_map_data_def)
  from payment_per_household_quotient[OF mem] mem show ?thesis
    by (simp add: example_map_data_def example_policy_acs_def)
qed

text \<open>
  Claim C1 as the specification states it fails: Texas has payments of 70 and zero
  households in the example, and its \<open>payment_per_household\<close> is positive infinity, not
  null.
\<close>

theorem payment_per_household_counterexample:
  "map (\<lambda>m. (state m, payment_amount m, total_households (indicators (acs m)),
             payment_per_household m))
     (map_data (cms_cleaning example_payments) example_policy_acs) =
   [(''CA'', 1000, Some 2, Num 500), (''TX'', 70, Some 0, PosInf)] \<and> PosInf \<noteq> NaN"
  unfolding example_map_data_eval by (simp add: example_map_data_def example_policy_acs_def)

theorem state_summary_inner_join_witness:
  "distinct (filter (\<lambda>x. x \<noteq> None) (map state_abbr example_policy_acs)) \<and>
   distinct (map state (map_data (cms_cleaning example_payments) example_policy_acs)) \<and>
   ''PR'' \<in> state ` set (cms_cleaning example_payments) \<and>
   Some ''PR'' \<notin> state_abbr ` set example_policy_acs \<and>
   ''PR'' \<notin> set (map state (map_data (cms_cleaning example_payments) example_policy_acs)) \<and>
   ''PR'' \<in> set (map state (detail_data (cms_cleaning example_payments)))"
proof -
  have h: "distinct (filter (\<lambda>x. x \<noteq> None) (map state_abbr example_policy_acs))"
    by (simp add: example_policy_acs_def)
  have d: "''PR'' \<in> set (map state (detail_data (cms_cleaning example_payments)))"
    unfolding example_detail_data_eval by (simp add: example_detail_data_def)
  have p: "''PR'' \<in> state ` set (cms_cleaning example_payments)"
    using d state_summary_inner_join[OF h, of "cms_cleaning example_payments"] by blast
  have n: "Some ''PR'' \<notin> state_abbr ` set example_policy_acs"
    by (simp add: example_policy_acs_def)
  from state_summary_inner_join[OF h, of "cms_cleaning example_payments"] h p n d
  show ?thesis by blast
qed

theorem missing_census_file_aborts_witness:
  "acs_raw \<lparr> cms_raw = None, acs_raw = None, cms_acs_state_summary = None,
             cms_payments_details = None \<rparr> = None \<and>
   run_preprocessing example_to_numeric (Inr example_payments)
     \<lparr> cms_raw = None, acs_raw = None, cms_acs_state_summary = None,
       cms_payments_details = None \<rparr> =
   (Some FileNotFoundError,
     \<lparr> cms_raw = Some example_payments, acs_raw = None, cms_acs_state_summary = None,
       cms_payments_details = None \<rparr>)"
proof -
  let ?fs = "\<lparr> cms_raw = None, acs_raw = None, cms_acs_state_summary = None,
       cms_payments_details = None \<rparr>"
  have h: "acs_raw ?fs = None" by simp
  have c: "cms_raw (snd (run_preprocessing example_to_numeric (Inr example_payments) ?fs))
      = Some example_payments"
    by (simp add: run_preprocessing_def load_cms_def)
  from missing_census_file_aborts[OF h, of example_to_numeric "Inr example_payments"] c
  show ?thesis
    by (cases "run_preprocessing example_to_numeric (Inr example_payments) ?fs"; cases "snd (run_preprocessing example_to_numeric (Inr example_payments) ?fs)") simp_all
qed

theorem unmapped_census_rows_excluded_witness:
  "acs_preparation example_to_numeric example_census = Inr example_policy_acs \<and>
   example_policy_acs ! 2 \<in> set example_policy_acs \<and>
   state_name (example_policy_acs ! 2) = ''Puerto Rico'' \<and>
   ''Puerto Rico'' \<notin> fst ` set state_to_abbr_items \<and>
   state_abbr (example_policy_acs ! 2) = None \<and>
   example_policy_acs ! 2 \<notin> acs ` set (map_data (cms_cleaning example_payments) example_policy_acs) \<and>
   example_map_data ! 1 \<in> set (map_data (cms_cleaning example_payments) example_policy_acs) \<and>
   state (example_map_data ! 1) = ''TX'' \<and>
   ''TX'' \<in> snd ` set state_to_abbr_items"
proof -
  have r: "example_policy_acs ! 2 \<in> set example_policy_acs"
    and nm: "state_name (example_policy_acs ! 2) = ''Puerto Rico''"
    by (simp_all add: example_policy_acs_def)
  have n: "''Puerto Rico'' \<notin> fst ` set state_to_abbr_items"
    by (simp add: state_to_abbr_items_def)
  have m: "example_map_data ! 1 \<in> set (map_data (cms_cleaning example_payments) example_policy_acs)"
    and st: "state (example_map_data ! 1) = ''TX''"
    by (simp_all add: example_map_data_eval example_map_data_def)
  from unmapped_census_rows_excluded[OF example_acs_preparation, of "cms_cleaning example_payments"]
    r nm n m st example_acs_preparation
  show ?thesis by (metis (no_types, lifting))
qed


section \<open>Properties of the quantile\<close>


lemma sort_nonempty: "xs \<noteq> [] \<Longrightarrow> sort xs \<noteq> []"
  by (metis length_0_conv length_sort)







section \<open>Properties of the filter and the metrics\<close>


lemma top_percent_filter_subset: "set (top_percent_filter tp rows) \<subseteq> set rows"
  by (auto simp: top_percent_filter_def Let_def)

text \<open>
  Claim C6. A row of the filtered frame is a row of the detail table whose specialty is
  selected, whose state is among the selected states, and whose state has a row in the
  state table with a present income percentile between the two ends of the range, both
  included. So a selected state outside the income band contributes no row.
\<close>

theorem filtered_df_states_in_band:
  assumes "r \<in> set (filtered_df df_details df_states selected_states selected_specialty
                       income_range top_percent)"
  shows "r \<in> set df_details \<and> specialty_clean r \<in> set selected_specialty \<and>
     state r \<in> set selected_states \<and>
     (\<exists>t p. t \<in> set df_states \<and> state t = state r \<and> income_percentile t = Some p \<and>
            of_int (fst income_range) \<le> p \<and> p \<le> of_int (snd income_range))"
proof -
  from assms have s: "r \<in> set (select_rows df_details selected_specialty
      (final_state_list selected_states (wealth_eligible_states df_states income_range)))"
    unfolding filtered_df_def using top_percent_filter_subset by blast
  then have a: "r \<in> set df_details" "specialty_clean r \<in> set selected_specialty"
    and f: "state r \<in> set (final_state_list selected_states
              (wealth_eligible_states df_states income_range))"
    by (auto simp: select_rows_def)
  from f have b: "state r \<in> set selected_states"
    and w: "state r \<in> set (wealth_eligible_states df_states income_range)"
    by (auto simp: final_state_list_def)
  from w obtain t where "t \<in> set df_states" "state t = state r"
    "case income_percentile t of None \<Rightarrow> False
     | Some p \<Rightarrow> p \<ge> of_int (fst income_range) \<and> p \<le> of_int (snd income_range)"
    by (auto simp: wealth_eligible_states_def)
  then have "\<exists>t p. t \<in> set df_states \<and> state t = state r \<and> income_percentile t = Some p \<and>
            of_int (fst income_range) \<le> p \<and> p \<le> of_int (snd income_range)"
    by (cases "income_percentile t") auto
  with a b show ?thesis by blast
qed

lemma select_rows_subset: "set (select_rows d sp st) \<subseteq> set d"
  by (auto simp: select_rows_def)

lemma filtered_df_pos:
  assumes "r \<in> set (filtered_df (detail_data (cms_cleaning raw)) s ss sp ir tp)"
  shows "0 < payment_amount r"
proof -
  have "r \<in> set (detail_data (cms_cleaning raw))"
    using assms top_percent_filter_subset select_rows_subset unfolding filtered_df_def by blast
  then show ?thesis using detail_data_pos cms_cleaning_pos by blast
qed







lemma length_cumsum: "length (cumsum acc xs) = length xs"
  by (induction xs arbitrary: acc) auto

lemma last_cumsum_Cons: "last (cumsum acc (x # xs)) = acc + x + sum_list xs"
proof (induction xs arbitrary: acc x)
  case Nil
  then show ?case by simp
next
  case (Cons y ys)
  have "last (cumsum acc (x # y # ys)) = last (cumsum (acc + x) (y # ys))" by simp
  also have "\<dots> = acc + x + y + sum_list ys" by (rule Cons.IH)
  finally show ?case by (simp add: add.assoc)
qed

lemma last_cumsum: "xs \<noteq> [] \<Longrightarrow> last (cumsum acc xs) = acc + sum_list xs"
  by (cases xs) (simp_all only: last_cumsum_Cons sum_list.Cons add.assoc list.simps)

lemma cumsum_lower: "(\<forall>x\<in>set xs. 0 \<le> x) \<Longrightarrow> c \<in> set (cumsum acc xs) \<Longrightarrow> acc \<le> c"
proof (induction xs arbitrary: acc)
  case Nil
  then show ?case by simp
next
  case (Cons x xs)
  from Cons.prems(2) consider "c = acc + x" | "c \<in> set (cumsum (acc + x) xs)" by auto
  then show ?case
  proof cases
    case 1
    then show ?thesis using Cons.prems(1) by simp
  next
    case 2
    then have "acc + x \<le> c" using Cons.IH[of "acc + x"] Cons.prems(1) by simp
    then show ?thesis using Cons.prems(1) by simp
  qed
qed

lemma sorted_cumsum: "(\<forall>x\<in>set xs. 0 \<le> x) \<Longrightarrow> sorted (cumsum acc xs)"
proof (induction xs arbitrary: acc)
  case Nil
  then show ?case by simp
next
  case (Cons x xs)
  have "\<forall>c\<in>set (cumsum (acc + x) xs). acc + x \<le> c"
    using cumsum_lower[of xs _ "acc + x"] Cons.prems by auto
  then show ?case using Cons by simp
qed

lemma map_zip3_mid:
  "length A = length B \<Longrightarrow> length B = length C \<Longrightarrow>
     map (\<lambda>(r, c, i). g c) (zip A (zip B C)) = map g B"
  by (induction A B C rule: list_induct3) auto

lemma map_zip3_last:
  "length A = length B \<Longrightarrow> length B = length C \<Longrightarrow>
     map (\<lambda>(r, c, i). g i) (zip A (zip B C)) = map g C"
  by (induction A B C rule: list_induct3) auto

lemma map_zip3_first:
  "length A = length B \<Longrightarrow> length B = length C \<Longrightarrow>
     map (\<lambda>(r, c, i). g r) (zip A (zip B C)) = map g A"
  by (induction A B C rule: list_induct3) auto

lemma sorted_map_divide:
  "sorted xs \<Longrightarrow> 0 < (t::real) \<Longrightarrow> sorted (map (\<lambda>c. c / t) xs)"
  by (induction xs) (auto simp: divide_right_mono)

lemma sorted_people: "sorted (map (\<lambda>i. real i / real n) [1 ..< n + 1])"
proof -
  have "sorted_wrt (\<lambda>i j. real i / real n \<le> real j / real n) [1 ..< n + 1]"
  proof (rule sorted_wrt_mono_rel[of _ "(\<le>)"])
    show "sorted_wrt (\<le>) [1 ..< n + 1]" by (rule sorted_upt)
  qed (simp add: divide_right_mono)
  then show ?thesis by (simp add: sorted_map del: upt_Suc)
qed

lemma map_sort_key_amount:
  "map payment_amount (sort_key payment_amount df) = sort (map payment_amount df)"
  by (rule properties_for_sort[symmetric]) simp_all

lemma lorenz_df_columns:
  assumes "\<forall>r\<in>set df. 0 < payment_amount r" "df \<noteq> []"
  shows "\<exists>L. lorenz_df df = Some L \<and>
     map payment_amount L = sort (map payment_amount df) \<and>
     map cum_money L = cumsum 0 (sort (map payment_amount df)) \<and>
     map cum_percent_money L =
       map (\<lambda>c. Num (c / total_payments df)) (cumsum 0 (sort (map payment_amount df))) \<and>
     map cum_percent_people L = map (\<lambda>i. real i / real (length df)) [1 ..< length df + 1]"
proof -
  let ?S = "sort_key payment_amount df"
  let ?C = "cumsum 0 (map payment_amount ?S)"
  let ?I = "[1 ..< length ?S + 1]"
  have tot: "sum_list (map payment_amount ?S) = total_payments df"
    unfolding total_payments_def map_sort_key_amount
    by (metis mset_sort sum_mset_sum_list)
  have "0 < total_payments df"
    unfolding total_payments_def using assms by (intro sum_list_pos_real) auto
  then have d: "divide_column c (Some (total_payments df)) = Num (c / total_payments df)" for c
    by (simp add: divide_column_def)
  have l1: "length ?S = length ?C" by (simp add: length_cumsum)
  have l2: "length ?C = length ?I" by (simp add: length_cumsum del: upt_Suc)
  define L where "L = map (\<lambda>(r, c, i).
                    \<lparr> state = state r, payment_amount = payment_amount r,
                      specialty_clean = specialty_clean r,
                      payment_type_clean = payment_type_clean r,
                      cum_money = c,
                      cum_percent_money = divide_column c (Some (total_payments df)),
                      cum_percent_people = real i / real (length df) \<rparr>)
                  (zip ?S (zip ?C ?I))"
  have "lorenz_df df = Some L"
    using assms(2) unfolding lorenz_df_def Let_def tot L_def by simp
  moreover have "map payment_amount L = sort (map payment_amount df)"
    unfolding L_def map_sort_key_amount[symmetric]
    using map_zip3_first[OF l1 l2, of payment_amount] by (simp add: case_prod_unfold comp_def)
  moreover have "map cum_money L = cumsum 0 (sort (map payment_amount df))"
    unfolding L_def map_sort_key_amount[symmetric]
    using map_zip3_mid[OF l1 l2, of "\<lambda>c. c"] by (simp add: case_prod_unfold comp_def)
  moreover have "map cum_percent_money L =
       map (\<lambda>c. Num (c / total_payments df)) (cumsum 0 (sort (map payment_amount df)))"
    unfolding L_def map_sort_key_amount[symmetric]
    using map_zip3_mid[OF l1 l2, of "\<lambda>c. Num (c / total_payments df)"]
    by (simp add: case_prod_unfold comp_def d)
  moreover have "map cum_percent_people L =
      map (\<lambda>i. real i / real (length df)) [1 ..< length df + 1]"
    unfolding L_def
    using map_zip3_last[OF l1 l2, of "\<lambda>i. real i / real (length df)"]
    by (simp add: case_prod_unfold comp_def del: upt_Suc)
  ultimately show ?thesis by blast
qed

text \<open>
  Claim C4. For a non-empty filtered frame of a detail table written by the pipeline, the
  Lorenz table exists; its rows are in ascending order of amount, \<open>cum_money\<close> is the
  running sum, \<open>cum_percent_money\<close> is the running sum divided by the total (a finite
  number in every row) and \<open>cum_percent_people\<close> is the row number, from 1, divided by
  the number of rows. Both coordinate columns are non-decreasing and end in 1.
\<close>

theorem lorenz_coordinates_monotone:
  assumes "0 < top_percent" "top_percent \<le> 100"
    and "F = filtered_df (detail_data (cms_cleaning raw)) df_states selected_states
               selected_specialty income_range top_percent"
    and "F \<noteq> []"
  shows "\<exists>L xs ys. lorenz_df F = Some L \<and>
     map payment_amount L = sort (map payment_amount F) \<and>
     map cum_money L = cumsum 0 (map payment_amount L) \<and>
     ys = map (\<lambda>c. c / total_payments F) (map cum_money L) \<and>
     xs = map (\<lambda>i. real i / real (length F)) [1 ..< length F + 1] \<and>
     map cum_percent_money L = map Num ys \<and>
     map cum_percent_people L = xs \<and>
     sorted xs \<and> sorted ys \<and> last xs = 1 \<and> last ys = 1"
proof -
  have p: "\<forall>r\<in>set F. 0 < payment_amount r"
    unfolding assms(3) using filtered_df_pos by blast
  from lorenz_df_columns[OF p assms(4)] obtain L where L: "lorenz_df F = Some L"
    "map payment_amount L = sort (map payment_amount F)"
    "map cum_money L = cumsum 0 (sort (map payment_amount F))"
    "map cum_percent_money L =
       map (\<lambda>c. Num (c / total_payments F)) (cumsum 0 (sort (map payment_amount F)))"
    "map cum_percent_people L = map (\<lambda>i. real i / real (length F)) [1 ..< length F + 1]"
    by blast
  let ?A = "sort (map payment_amount F)"
  let ?ys = "map (\<lambda>c. c / total_payments F) (cumsum 0 ?A)"
  let ?xs = "map (\<lambda>i. real i / real (length F)) [1 ..< length F + 1]"
  have tp: "0 < total_payments F"
    unfolding total_payments_def using p assms(4) by (intro sum_list_pos_real) auto
  have A0: "\<forall>x\<in>set ?A. 0 \<le> x" using p by (auto intro: less_imp_le)
  have Ane: "?A \<noteq> []" using assms(4) by (simp add: sort_nonempty)
  have sy: "sorted ?ys" using sorted_cumsum[OF A0] tp by (rule sorted_map_divide)
  have "sum_list ?A = total_payments F"
    unfolding total_payments_def by (metis mset_sort sum_mset_sum_list)
  then have "last (cumsum 0 ?A) = total_payments F" using last_cumsum[OF Ane, of 0] by simp
  moreover have "cumsum 0 ?A \<noteq> []" using Ane by (metis length_cumsum length_0_conv)
  ultimately have ly: "last ?ys = 1" using tp by (simp add: last_map)
  have sx: "sorted ?xs" by (rule sorted_people)
  have n0: "length F \<noteq> 0" and n1: "Suc 0 \<le> length F"
    using assms(4) by (simp_all add: Suc_le_eq)
  have e: "[1 ..< length F + 1] = [1 ..< length F] @ [length F]" using n1 by simp
  have lx: "last ?xs = 1" unfolding e using n0 by simp
  have m: "map cum_percent_money L = map Num ?ys" unfolding L(4) by simp
  show ?thesis
    using L(1,2,5) L(3)[folded L(2)] m[folded L(3)] sx sy[folded L(3)] lx ly[folded L(3)]
    by blast
qed

lemma example_filtered_all:
  "filtered_df (detail_data (cms_cleaning example_payments)) (prepare_states example_map_data)
     [''CA'', ''TX''] [''Cardiology'', []] (0, 100) 100 =
   [example_detail_data ! 0, example_detail_data ! 2]"
  by code_simp


lemma example_filtered_band:
  "filtered_df example_detail_data (prepare_states example_map_data)
     [''CA'', ''TX''] [''Cardiology'', []] (60, 100) 100 =
   [example_detail_data ! 0]"
  by code_simp


theorem filtered_df_states_in_band_witness:
  "example_detail_data ! 0 \<in>
     set (filtered_df example_detail_data (prepare_states example_map_data)
            [''CA'', ''TX''] [''Cardiology'', []] (60, 100) 100) \<and>
   state (example_detail_data ! 0) = ''CA'' \<and>
   state (example_detail_data ! 0) \<in> set [''CA'', ''TX''] \<and>
   (\<exists>t p. t \<in> set (prepare_states example_map_data) \<and> state t = ''CA'' \<and>
      income_percentile t = Some p \<and> of_int (fst (60::int, 100::int)) \<le> p \<and> p \<le> of_int (snd (60::int, 100::int)))"
proof -
  have mem: "example_detail_data ! 0 \<in>
     set (filtered_df example_detail_data (prepare_states example_map_data)
            [''CA'', ''TX''] [''Cardiology'', []] (60, 100) 100)"
    unfolding example_filtered_band by simp
  have st: "state (example_detail_data ! 0) = ''CA''" by (simp add: example_detail_data_def)
  note c = filtered_df_states_in_band[OF mem]
  have c3: "state (example_detail_data ! 0) \<in> set [''CA'', ''TX'']"
    by (rule c[THEN conjunct2, THEN conjunct2, THEN conjunct1])
  have c4: "\<exists>t p. t \<in> set (prepare_states example_map_data) \<and> state t = ''CA'' \<and>
      income_percentile t = Some p \<and> of_int (fst (60::int, 100::int)) \<le> p \<and> p \<le> of_int (snd (60::int, 100::int))"
    using c[THEN conjunct2, THEN conjunct2, THEN conjunct2] unfolding st .
  show ?thesis by (intro conjI) (rule mem st c3 c4)+
qed



theorem lorenz_coordinates_monotone_witness:
  "(0::real) < 100 \<and> (100::real) \<le> 100 \<and>
   filtered_df (detail_data (cms_cleaning example_payments))
     (prepare_states example_map_data) [''CA'', ''TX''] [''Cardiology'', []] (0, 100) 100 \<noteq> [] \<and>
   (\<exists>L. lorenz_df (filtered_df (detail_data (cms_cleaning example_payments))
            (prepare_states example_map_data) [''CA'', ''TX''] [''Cardiology'', []] (0, 100) 100)
          = Some L \<and>
        map cum_percent_people L = [1 / 2, 1] \<and>
        sorted (map cum_percent_people L) \<and> last (map cum_percent_people L) = 1)"
proof -
  let ?F = "filtered_df (detail_data (cms_cleaning example_payments))
     (prepare_states example_map_data) [''CA'', ''TX''] [''Cardiology'', []] (0, 100) 100"
  have h: "(0::real) < 100" "(100::real) \<le> 100" by simp_all
  have ne: "?F \<noteq> []" unfolding example_filtered_all by simp
  have len: "length ?F = 2" unfolding example_filtered_all by simp
  from lorenz_coordinates_monotone[OF h refl ne]
  obtain L xs where L: "lorenz_df ?F = Some L"
    "xs = map (\<lambda>i. real i / real (length ?F)) [1 ..< length ?F + 1]"
    "map cum_percent_people L = xs" "sorted xs" "last xs = 1"
    by blast
  have "[1 ..< length ?F + 1] = [1, 2]" unfolding len by code_simp
  then have x: "xs = [1 / 2, 1]" unfolding L(2) len by simp
  have "lorenz_df ?F = Some L \<and> map cum_percent_people L = [1 / 2, 1] \<and>
        sorted (map cum_percent_people L) \<and> last (map cum_percent_people L) = 1"
    using L(1,3,4,5) x by simp
  then have ex: "\<exists>L. lorenz_df ?F = Some L \<and> map cum_percent_people L = [1 / 2, 1] \<and>
        sorted (map cum_percent_people L) \<and> last (map cum_percent_people L) = 1"
    by (rule exI)
  show ?thesis
    by (intro conjI) (rule h ne ex)+
qed


section \<open>Line 93 in floating point\<close>

















end
